theory Spec2Isabelle
  imports Main
begin

section \<open>Errors\<close>

text \<open>
  A Go \<open>error\<close> value. \<open>Errorf m\<close> is \<open>fmt.Errorf\<close> with a format that has no
  \<open>%w\<close> verb (the message \<open>m\<close> is already formatted); \<open>Wrapf p e\<close> is
  \<open>fmt.Errorf(p + "%w", e)\<close>, which keeps \<open>e\<close> as the wrapped cause; \<open>Foreign m\<close>
  is an error made outside this package (the HTTP transport, the JSON decoder, \<open>os/exec\<close>,
  the file system). A function returning \<open>error\<close> returns \<open>error option\<close> (\<open>None\<close> is
  \<open>nil\<close>); a function returning \<open>(T, error)\<close> returns \<open>error + T\<close>.
\<close>

datatype error = Errorf string | Wrapf string error | Foreign string

fun Error :: "error \<Rightarrow> string" where
  "Error (Errorf m) = m"
| "Error (Wrapf p e) = p @ Error e"
| "Error (Foreign m) = m"

fun Unwrap :: "error \<Rightarrow> error option" where
  "Unwrap (Wrapf p e) = Some e"
| "Unwrap (Errorf m) = None"
| "Unwrap (Foreign m) = None"

section \<open>Data model\<close>

text \<open>
  Go's \<open>int\<close> and \<open>int64\<close> fields are \<open>int\<close>: the code compares and prints them and
  never does arithmetic that could wrap. Pointer fields that may be \<open>nil\<close> are options.
  The timestamp and metrics fields of \<open>Server\<close> and \<open>WebInstance\<close> (\<open>LastSeenAt\<close>,
  \<open>CreatedAt\<close>, \<open>Metrics\<close>, \<open>LastCheckAt\<close>) are only ever printed and are left out.
  Field names carry the struct's name because record fields share one name space.
\<close>

record Config =
  Config_CloudURL :: string
  Config_Token :: string
  Config_Username :: string
  Config_ExpiresAt :: int

record Client =
  Client_BaseURL :: string
  Client_Token :: string

record Server =
  Server_ID :: string
  Server_Name :: string
  Server_Hostname :: "string option"
  Server_IPAddress :: "string option"
  Server_AgentKey :: string
  Server_AgentVersion :: "string option"
  Server_OSType :: "string option"
  Server_OSVersion :: "string option"
  Server_Status :: string

record WebInstance =
  Web_ID :: string
  Web_Name :: string
  Web_Host :: string
  Web_Port :: int
  Web_URL :: string
  Web_Status :: string
  Web_Version :: string
  Web_CloudMode :: bool
  Web_SSLEnabled :: bool

record UserPlan =
  Plan_Plan :: string
  Plan_MaxWebApps :: int
  Plan_CurrentCount :: int
  Plan_IsPro :: bool

record VerifyResponse =
  Verify_Valid :: bool
  Verify_UserID :: string
  Verify_Username :: string
  Verify_Plan :: string

record User =
  User_ID :: string
  User_Username :: string
  User_Email :: "string option"
  User_AvatarURL :: "string option"
  User_Plan :: string
  User_ServerLimit :: int
  User_Status :: string

record CurrentUserResponse =
  Current_User :: User
  Current_ServerCount :: int
  Current_ServerLimit :: int

record AgentKeyResponse =
  Key_AgentKey :: string

record InstallCommandResponse =
  Install_Command :: string
  Install_AgentKey :: string

record WebInstanceStatus =
  Check_Status :: string
  Check_ResponseTime :: string
  Check_Version :: string
  Check_CloudConnected :: bool

text \<open>
  The metrics payloads hold floating-point readings that the commands only print; the
  workflows test \<open>resp.Metrics\<close> against \<open>nil\<close> and nothing more.
\<close>

typedecl ServerMetrics
typedecl MetricsHistory

record MetricsResponse =
  Metrics_Metrics :: "ServerMetrics option"

section \<open>The world outside the process\<close>

text \<open>
  Every effect of a command is recorded as an event, in order: an HTTP request made by
  \<open>Client.Do\<close> (with the client that made it, the method, the path and the JSON body),
  a subprocess started by \<open>exec.Command(...).Run()\<close>, and a write of the configuration
  file by \<open>SaveConfig\<close>.
\<close>

datatype body = NoBody | NameBody string | InstanceBody WebInstance

datatype event =
  Request Client string string body
| Exec string "string list"
| WriteConfig Config

text \<open>
  The collaborators are deterministic functions of the events so far (the last event is
  the one being answered), so a remote service with state of its own is covered.
  \<open>reply_X\<close> is what \<open>Client.Do\<close> yields when the decode target has type \<open>X\<close>:
  an error (transport failure, status \<open>\<ge> 400\<close>, decode failure) or the decoded value;
  \<open>reply_none\<close> is \<open>Do\<close> with a \<open>nil\<close> target.
  \<open>look_path\<close> is \<open>exec.LookPath("ssh")\<close>, \<open>run_process\<close> the result of
  \<open>cmd.Run()\<close>, \<open>write_config\<close> the result of the directory creation, marshalling and
  file write inside \<open>SaveConfig\<close>, \<open>scan_confirm\<close> the token read by \<open>fmt.Scanln\<close>,
  \<open>prompt_token\<close> the token obtained by the interactive prompt of \<open>login\<close> (after
  the trimming the code applies), \<open>now\<close> the reading of \<open>time.Now()\<close> in nanoseconds
  since the Unix epoch, and \<open>marshal_out\<close> the error of \<open>OutputJSON\<close>/\<open>OutputYAML\<close>.
\<close>

record env =
  reply_server :: "event list \<Rightarrow> error + Server"
  reply_servers :: "event list \<Rightarrow> error + Server list"
  reply_none :: "event list \<Rightarrow> error option"
  reply_verify :: "event list \<Rightarrow> error + VerifyResponse"
  reply_user :: "event list \<Rightarrow> error + CurrentUserResponse"
  reply_key :: "event list \<Rightarrow> error + AgentKeyResponse"
  reply_install :: "event list \<Rightarrow> error + InstallCommandResponse"
  reply_metrics :: "event list \<Rightarrow> error + MetricsResponse"
  reply_history :: "event list \<Rightarrow> error + MetricsHistory"
  reply_instance :: "event list \<Rightarrow> error + WebInstance"
  reply_instances :: "event list \<Rightarrow> error + WebInstance list"
  reply_check :: "event list \<Rightarrow> error + WebInstanceStatus"
  reply_plan :: "event list \<Rightarrow> error + UserPlan"
  look_path :: "error + string"
  run_process :: "event list \<Rightarrow> error option"
  write_config :: "event list \<Rightarrow> error option"
  scan_confirm :: string
  prompt_token :: "error + string"
  now :: int
  marshal_out :: "error option"

text \<open>
  The state a command can change: the package-level \<open>cfg\<close>, the configuration file
  (\<open>None\<close> while it does not exist) and the events so far.
\<close>

record world =
  cfg :: Config
  disk :: "Config option"
  events :: "event list"

definition emit :: "event \<Rightarrow> world \<Rightarrow> world" where
  "emit ev w = w\<lparr>events := events w @ [ev]\<rparr>"

section \<open>Configuration\<close>

definition IsLoggedIn :: "world \<Rightarrow> bool" where
  "IsLoggedIn w = (Config_Token (cfg w) \<noteq> [])"

text \<open>
  \<open>SaveConfig\<close> writes the current \<open>cfg\<close>. When any of its steps fails the file is taken
  to be as it was.
\<close>

definition SaveConfig :: "env \<Rightarrow> world \<Rightarrow> error option \<times> world" where
  "SaveConfig E w =
     (let w1 = emit (WriteConfig (cfg w)) w in
      case write_config E (events w1) of
        Some err \<Rightarrow> (Some err, w1)
      | None \<Rightarrow> (None, w1\<lparr>disk := Some (cfg w)\<rparr>))"

section \<open>API client\<close>

definition NewClient :: "world \<Rightarrow> Client" where
  "NewClient w =
     \<lparr>Client_BaseURL = Config_CloudURL (cfg w), Client_Token = Config_Token (cfg w)\<rparr>"

text \<open>
  \<open>Do\<close> sends one request and decodes the answer; \<open>Do r\<close> is \<open>Do\<close> at the decode
  target whose replies are \<open>r\<close>.
\<close>

definition Do :: "(event list \<Rightarrow> 'a) \<Rightarrow> Client \<Rightarrow> string \<Rightarrow> string \<Rightarrow> body \<Rightarrow> world \<Rightarrow> 'a \<times> world" where
  "Do r c method path b w =
     (let w1 = emit (Request c method path b) w in (r (events w1), w1))"

definition ListServers :: "env \<Rightarrow> Client \<Rightarrow> world \<Rightarrow> (error + Server list) \<times> world" where
  "ListServers E c w = Do (reply_servers E) c ''GET'' ''/api/servers'' NoBody w"

definition CreateServer :: "env \<Rightarrow> Client \<Rightarrow> string \<Rightarrow> world \<Rightarrow> (error + Server) \<times> world" where
  "CreateServer E c name w = Do (reply_server E) c ''POST'' ''/api/servers'' (NameBody name) w"

definition GetServer :: "env \<Rightarrow> Client \<Rightarrow> string \<Rightarrow> world \<Rightarrow> (error + Server) \<times> world" where
  "GetServer E c ident w = Do (reply_server E) c ''GET'' (''/api/servers/'' @ ident) NoBody w"

definition UpdateServer :: "env \<Rightarrow> Client \<Rightarrow> string \<Rightarrow> string \<Rightarrow> world \<Rightarrow> (error + Server) \<times> world" where
  "UpdateServer E c ident name w =
     Do (reply_server E) c ''PUT'' (''/api/servers/'' @ ident) (NameBody name) w"

definition DeleteServer :: "env \<Rightarrow> Client \<Rightarrow> string \<Rightarrow> world \<Rightarrow> error option \<times> world" where
  "DeleteServer E c ident w = Do (reply_none E) c ''DELETE'' (''/api/servers/'' @ ident) NoBody w"

definition VerifyToken :: "env \<Rightarrow> Client \<Rightarrow> world \<Rightarrow> (error + VerifyResponse) \<times> world" where
  "VerifyToken E c w = Do (reply_verify E) c ''GET'' ''/api/auth/verify'' NoBody w"

definition GetCurrentUser :: "env \<Rightarrow> Client \<Rightarrow> world \<Rightarrow> (error + CurrentUserResponse) \<times> world" where
  "GetCurrentUser E c w = Do (reply_user E) c ''GET'' ''/api/auth/me'' NoBody w"

definition RegenerateAgentKey :: "env \<Rightarrow> Client \<Rightarrow> string \<Rightarrow> world \<Rightarrow> (error + AgentKeyResponse) \<times> world" where
  "RegenerateAgentKey E c ident w =
     Do (reply_key E) c ''POST'' (''/api/servers/'' @ ident @ ''/regenerate-key'') NoBody w"

definition GetInstallCommand :: "env \<Rightarrow> Client \<Rightarrow> string \<Rightarrow> world \<Rightarrow> (error + InstallCommandResponse) \<times> world" where
  "GetInstallCommand E c ident w =
     Do (reply_install E) c ''GET'' (''/api/servers/'' @ ident @ ''/install-command'') NoBody w"

definition GetServerMetrics :: "env \<Rightarrow> Client \<Rightarrow> string \<Rightarrow> world \<Rightarrow> (error + MetricsResponse) \<times> world" where
  "GetServerMetrics E c ident w =
     Do (reply_metrics E) c ''GET'' (''/api/servers/'' @ ident @ ''/metrics'') NoBody w"

definition GetServerHistory :: "env \<Rightarrow> Client \<Rightarrow> string \<Rightarrow> string \<Rightarrow> world \<Rightarrow> (error + MetricsHistory) \<times> world" where
  "GetServerHistory E c ident rangeStr w =
     (let path0 = ''/api/servers/'' @ ident @ ''/history'';
          path = (if rangeStr \<noteq> [] then path0 @ ''?range='' @ rangeStr else path0)
      in Do (reply_history E) c ''GET'' path NoBody w)"

text \<open>The helpers \<open>get\<close>, \<open>post\<close>, \<open>put\<close> and \<open>delete\<close> prefix the path with \<open>/api\<close>.\<close>

definition get :: "(event list \<Rightarrow> 'a) \<Rightarrow> Client \<Rightarrow> string \<Rightarrow> world \<Rightarrow> 'a \<times> world" where
  "get r c path w = Do r c ''GET'' (''/api'' @ path) NoBody w"

definition post :: "(event list \<Rightarrow> 'a) \<Rightarrow> Client \<Rightarrow> string \<Rightarrow> body \<Rightarrow> world \<Rightarrow> 'a \<times> world" where
  "post r c path b w = Do r c ''POST'' (''/api'' @ path) b w"

definition put :: "(event list \<Rightarrow> 'a) \<Rightarrow> Client \<Rightarrow> string \<Rightarrow> body \<Rightarrow> world \<Rightarrow> 'a \<times> world" where
  "put r c path b w = Do r c ''PUT'' (''/api'' @ path) b w"

definition delete :: "(event list \<Rightarrow> 'a) \<Rightarrow> Client \<Rightarrow> string \<Rightarrow> world \<Rightarrow> 'a \<times> world" where
  "delete r c path w = Do r c ''DELETE'' (''/api'' @ path) NoBody w"

definition ListWebInstances :: "env \<Rightarrow> Client \<Rightarrow> world \<Rightarrow> (error + WebInstance list) \<times> world" where
  "ListWebInstances E c w = get (reply_instances E) c ''/web/instances'' w"

definition GetWebInstance :: "env \<Rightarrow> Client \<Rightarrow> string \<Rightarrow> world \<Rightarrow> (error + WebInstance) \<times> world" where
  "GetWebInstance E c ident w = get (reply_instance E) c (''/web/instances/'' @ ident) w"

definition RegisterWebInstance :: "env \<Rightarrow> Client \<Rightarrow> WebInstance \<Rightarrow> world \<Rightarrow> (error + WebInstance) \<times> world" where
  "RegisterWebInstance E c instance w =
     post (reply_instance E) c ''/web/instances'' (InstanceBody instance) w"

definition UpdateWebInstance :: "env \<Rightarrow> Client \<Rightarrow> WebInstance \<Rightarrow> world \<Rightarrow> error option \<times> world" where
  "UpdateWebInstance E c instance w =
     put (reply_none E) c (''/web/instances/'' @ Web_ID instance) (InstanceBody instance) w"

definition RemoveWebInstance :: "env \<Rightarrow> Client \<Rightarrow> string \<Rightarrow> world \<Rightarrow> error option \<times> world" where
  "RemoveWebInstance E c ident w = delete (reply_none E) c (''/web/instances/'' @ ident) w"

definition CheckWebInstance :: "env \<Rightarrow> Client \<Rightarrow> string \<Rightarrow> world \<Rightarrow> (error + WebInstanceStatus) \<times> world" where
  "CheckWebInstance E c ident w =
     get (reply_check E) c (''/web/instances/'' @ ident @ ''/check'') w"

definition GetUserPlan :: "env \<Rightarrow> Client \<Rightarrow> world \<Rightarrow> (error + UserPlan) \<times> world" where
  "GetUserPlan E c w = get (reply_plan E) c ''/user/plan'' w"

section \<open>Resolving a server reference\<close>

text \<open>The loop \<open>for _, s := range servers\<close> of \<open>findServerByNameOrID\<close>.\<close>

fun scanServers :: "string \<Rightarrow> Server list \<Rightarrow> Server option" where
  "scanServers nameOrID [] = None"
| "scanServers nameOrID (s # servers) =
     (if Server_Name s = nameOrID then Some s else scanServers nameOrID servers)"

definition findServerByNameOrID :: "env \<Rightarrow> Client \<Rightarrow> string \<Rightarrow> world \<Rightarrow> (error + Server) \<times> world" where
  "findServerByNameOrID E client nameOrID w =
     (case GetServer E client nameOrID w of
        (Inr server, w1) \<Rightarrow> (Inr server, w1)
      | (Inl err, w1) \<Rightarrow>
          (case ListServers E client w1 of
             (Inl err2, w2) \<Rightarrow> (Inl (Errorf (''server not found: '' @ nameOrID)), w2)
           | (Inr servers, w2) \<Rightarrow>
               (case scanServers nameOrID servers of
                  Some s \<Rightarrow> (Inr s, w2)
                | None \<Rightarrow> (Inl (Errorf (''server not found: '' @ nameOrID)), w2))))"

section \<open>Formatting\<close>

text \<open>\<open>fmt.Sprintf("%d", n)\<close>: the decimal digits, with a minus sign below zero.\<close>

definition digit :: "nat \<Rightarrow> char" where
  "digit d = ''0123456789'' ! d"

fun digits10 :: "nat \<Rightarrow> string" where
  "digits10 n = (if n < 10 then [digit n] else digits10 (n div 10) @ [digit (n mod 10)])"

declare digits10.simps [simp del]

definition itoa :: "int \<Rightarrow> string" where
  "itoa n = (if n < 0 then ''-'' @ digits10 (nat (- n)) else digits10 (nat n))"

text \<open>A string between double quotes, as the format \<open>"%s"\<close> within a Go raw string prints it.\<close>

definition quoted :: "string \<Rightarrow> string" where
  "quoted s = [CHR 0x22] @ s @ [CHR 0x22]"

text \<open>
  \<open>strings.ToLower\<close> on the ASCII letters. The commands only compare its result with
  \<open>"y"\<close> and \<open>"yes"\<close>.
\<close>

definition lowerByte :: "char \<Rightarrow> char" where
  "lowerByte ch =
     (let n = (of_char ch :: nat) in if 65 \<le> n \<and> n \<le> 90 then char_of (n + 32) else ch)"

definition ToLower :: "string \<Rightarrow> string" where
  "ToLower s = map lowerByte s"

definition formatLimit :: "int \<Rightarrow> string" where
  "formatLimit limit = (if limit < 0 then ''unlimited'' else itoa limit)"

definition buildWebURL :: "string \<Rightarrow> int \<Rightarrow> string \<Rightarrow> bool \<Rightarrow> string" where
  "buildWebURL host port domain ssl =
     (let scheme = (if ssl then ''https'' else ''http'') in
      if domain \<noteq> [] then
        (if ssl \<and> port = 443 then scheme @ ''://'' @ domain
         else if \<not> ssl \<and> port = 80 then scheme @ ''://'' @ domain
         else scheme @ ''://'' @ domain @ '':'' @ itoa port)
      else if port = 80 \<or> port = 443 then scheme @ ''://'' @ host
      else scheme @ ''://'' @ host @ '':'' @ itoa port)"

section \<open>Session commands\<close>

text \<open>The package-level flag variables the commands read.\<close>

record flags =
  outputFmt :: string
  sshUser :: string
  sshPort :: int
  sshKey :: string

text \<open>
  Terminal output is not modelled. What remains of the \<open>switch outputFmt\<close> that ends
  most commands is its return value: the \<open>json\<close> and \<open>yaml\<close> branches return the
  error of \<open>OutputJSON\<close>/\<open>OutputYAML\<close>, the default branch prints and returns \<open>nil\<close>.
\<close>

definition outputSwitch :: "env \<Rightarrow> flags \<Rightarrow> error option" where
  "outputSwitch E F =
     (if outputFmt F = ''json'' then marshal_out E
      else if outputFmt F = ''yaml'' then marshal_out E
      else None)"

definition requireLogin :: "world \<Rightarrow> error option" where
  "requireLogin w =
     (if \<not> IsLoggedIn w then Some (Errorf ''not logged in. Run 'vstats login' first'') else None)"

text \<open>
  Times are nanoseconds since the Unix epoch; \<open>Hour\<close> is \<open>time.Hour\<close>, \<open>Add\<close> is
  \<open>Time.Add\<close> and \<open>Unix\<close> is \<open>Time.Unix\<close>, the whole seconds since the epoch.
\<close>

definition Hour :: int where
  "Hour = 3600 * 1000000000"

definition Add :: "int \<Rightarrow> int \<Rightarrow> int" where
  "Add t d = t + d"

definition Unix :: "int \<Rightarrow> int" where
  "Unix t = t div 1000000000"

definition runLogin :: "env \<Rightarrow> string \<Rightarrow> world \<Rightarrow> error option \<times> world" where
  "runLogin E loginToken w =
     (case (if loginToken = [] then prompt_token E else Inr loginToken) of
        Inl err \<Rightarrow> (Some (Wrapf ''failed to read token: '' err), w)
      | Inr token \<Rightarrow>
          if token = [] then (Some (Errorf ''token is required''), w)
          else
            let client = \<lparr>Client_BaseURL = Config_CloudURL (cfg w), Client_Token = token\<rparr> in
            (case VerifyToken E client w of
               (Inl err, w1) \<Rightarrow> (Some (Wrapf ''authentication failed: '' err), w1)
             | (Inr resp, w1) \<Rightarrow>
                 if \<not> Verify_Valid resp then (Some (Errorf ''invalid token''), w1)
                 else
                   let w2 = w1\<lparr>cfg := (cfg w1)\<lparr>Config_Token := token,
                                Config_Username := Verify_Username resp,
                                Config_ExpiresAt := Unix (Add (now E) (7 * 24 * Hour))\<rparr>\<rparr>
                   in
                   (case SaveConfig E w2 of
                      (Some err, w3) \<Rightarrow> (Some (Wrapf ''failed to save config: '' err), w3)
                    | (None, w3) \<Rightarrow> (None, w3))))"

definition logoutCmd :: "env \<Rightarrow> world \<Rightarrow> error option \<times> world" where
  "logoutCmd E w =
     (if \<not> IsLoggedIn w then (None, w)
      else
        let w1 = w\<lparr>cfg := (cfg w)\<lparr>Config_Token := [], Config_Username := [],
                     Config_ExpiresAt := 0\<rparr>\<rparr>
        in
        (case SaveConfig E w1 of
           (Some err, w2) \<Rightarrow> (Some (Wrapf ''failed to save config: '' err), w2)
         | (None, w2) \<Rightarrow> (None, w2)))"

definition whoamiCmd :: "env \<Rightarrow> flags \<Rightarrow> world \<Rightarrow> error option \<times> world" where
  "whoamiCmd E F w =
     (if \<not> IsLoggedIn w then (Some (Errorf ''not logged in. Run 'vstats login' first''), w)
      else
        (case GetCurrentUser E (NewClient w) w of
           (Inl err, w1) \<Rightarrow> (Some (Wrapf ''failed to get user info: '' err), w1)
         | (Inr resp, w1) \<Rightarrow> (None, w1)))"

section \<open>Server commands\<close>

definition serverListCmd :: "env \<Rightarrow> flags \<Rightarrow> world \<Rightarrow> error option \<times> world" where
  "serverListCmd E F w =
     (case requireLogin w of
        Some err \<Rightarrow> (Some err, w)
      | None \<Rightarrow>
          (case ListServers E (NewClient w) w of
             (Inl err, w1) \<Rightarrow> (Some (Wrapf ''failed to list servers: '' err), w1)
           | (Inr servers, w1) \<Rightarrow> (outputSwitch E F, w1)))"

definition serverCreateCmd :: "env \<Rightarrow> flags \<Rightarrow> string \<Rightarrow> world \<Rightarrow> error option \<times> world" where
  "serverCreateCmd E F name w =
     (case requireLogin w of
        Some err \<Rightarrow> (Some err, w)
      | None \<Rightarrow>
          (case CreateServer E (NewClient w) name w of
             (Inl err, w1) \<Rightarrow> (Some (Wrapf ''failed to create server: '' err), w1)
           | (Inr server, w1) \<Rightarrow> (outputSwitch E F, w1)))"

definition serverShowCmd :: "env \<Rightarrow> flags \<Rightarrow> string \<Rightarrow> world \<Rightarrow> error option \<times> world" where
  "serverShowCmd E F serverID w =
     (case requireLogin w of
        Some err \<Rightarrow> (Some err, w)
      | None \<Rightarrow>
          (case findServerByNameOrID E (NewClient w) serverID w of
             (Inl err, w1) \<Rightarrow> (Some err, w1)
           | (Inr server, w1) \<Rightarrow> (outputSwitch E F, w1)))"

text \<open>
  The confirmation prompt shared by the two removal commands: \<open>True\<close> when the command
  goes on, \<open>False\<close> when it prints \<open>Cancelled.\<close> and returns \<open>nil\<close>.
\<close>

definition confirmed :: "env \<Rightarrow> bool \<Rightarrow> bool" where
  "confirmed E force =
     (if \<not> force then
        (let confirm = scan_confirm E in
         \<not> (ToLower confirm \<noteq> ''y'' \<and> ToLower confirm \<noteq> ''yes''))
      else True)"

definition serverDeleteCmd :: "env \<Rightarrow> flags \<Rightarrow> string \<Rightarrow> bool \<Rightarrow> world \<Rightarrow> error option \<times> world" where
  "serverDeleteCmd E F serverID force w =
     (case requireLogin w of
        Some err \<Rightarrow> (Some err, w)
      | None \<Rightarrow>
          let client = NewClient w in
          (case findServerByNameOrID E client serverID w of
             (Inl err, w1) \<Rightarrow> (Some err, w1)
           | (Inr server, w1) \<Rightarrow>
               if \<not> confirmed E force then (None, w1)
               else
                 (case DeleteServer E client (Server_ID server) w1 of
                    (Some err, w2) \<Rightarrow> (Some (Wrapf ''failed to delete server: '' err), w2)
                  | (None, w2) \<Rightarrow> (None, w2))))"

definition serverUpdateCmd :: "env \<Rightarrow> flags \<Rightarrow> string \<Rightarrow> string \<Rightarrow> world \<Rightarrow> error option \<times> world" where
  "serverUpdateCmd E F serverID name w =
     (case requireLogin w of
        Some err \<Rightarrow> (Some err, w)
      | None \<Rightarrow>
          if name = [] then
            (Some (Errorf ''no changes specified. Use --name to update the server name''), w)
          else
            let client = NewClient w in
            (case findServerByNameOrID E client serverID w of
               (Inl err, w1) \<Rightarrow> (Some err, w1)
             | (Inr server, w1) \<Rightarrow>
                 (case UpdateServer E client (Server_ID server) name w1 of
                    (Inl err, w2) \<Rightarrow> (Some (Wrapf ''failed to update server: '' err), w2)
                  | (Inr updated, w2) \<Rightarrow> (outputSwitch E F, w2))))"

definition serverMetricsCmd :: "env \<Rightarrow> flags \<Rightarrow> string \<Rightarrow> world \<Rightarrow> error option \<times> world" where
  "serverMetricsCmd E F serverID w =
     (case requireLogin w of
        Some err \<Rightarrow> (Some err, w)
      | None \<Rightarrow>
          let client = NewClient w in
          (case findServerByNameOrID E client serverID w of
             (Inl err, w1) \<Rightarrow> (Some err, w1)
           | (Inr server, w1) \<Rightarrow>
               (case GetServerMetrics E client (Server_ID server) w1 of
                  (Inl err, w2) \<Rightarrow> (Some (Wrapf ''failed to get metrics: '' err), w2)
                | (Inr resp, w2) \<Rightarrow>
                    if Metrics_Metrics resp = None then (None, w2)
                    else (outputSwitch E F, w2))))"

definition serverHistoryCmd :: "env \<Rightarrow> flags \<Rightarrow> string \<Rightarrow> string \<Rightarrow> world \<Rightarrow> error option \<times> world" where
  "serverHistoryCmd E F serverID rangeFlag w =
     (case requireLogin w of
        Some err \<Rightarrow> (Some err, w)
      | None \<Rightarrow>
          let rangeStr = (if rangeFlag = [] then ''1h'' else rangeFlag);
              client = NewClient w
          in
          (case findServerByNameOrID E client serverID w of
             (Inl err, w1) \<Rightarrow> (Some err, w1)
           | (Inr server, w1) \<Rightarrow>
               (case GetServerHistory E client (Server_ID server) rangeStr w1 of
                  (Inl err, w2) \<Rightarrow> (Some (Wrapf ''failed to get history: '' err), w2)
                | (Inr history, w2) \<Rightarrow> (outputSwitch E F, w2))))"

definition serverInstallCmd :: "env \<Rightarrow> flags \<Rightarrow> string \<Rightarrow> world \<Rightarrow> error option \<times> world" where
  "serverInstallCmd E F serverID w =
     (case requireLogin w of
        Some err \<Rightarrow> (Some err, w)
      | None \<Rightarrow>
          let client = NewClient w in
          (case findServerByNameOrID E client serverID w of
             (Inl err, w1) \<Rightarrow> (Some err, w1)
           | (Inr server, w1) \<Rightarrow>
               (case GetInstallCommand E client (Server_ID server) w1 of
                  (Inl err, w2) \<Rightarrow> (Some (Wrapf ''failed to get install command: '' err), w2)
                | (Inr resp, w2) \<Rightarrow> (outputSwitch E F, w2))))"

definition serverKeyCmd :: "env \<Rightarrow> flags \<Rightarrow> string \<Rightarrow> bool \<Rightarrow> world \<Rightarrow> error option \<times> world" where
  "serverKeyCmd E F serverID regenerate w =
     (case requireLogin w of
        Some err \<Rightarrow> (Some err, w)
      | None \<Rightarrow>
          let client = NewClient w in
          (case findServerByNameOrID E client serverID w of
             (Inl err, w1) \<Rightarrow> (Some err, w1)
           | (Inr server, w1) \<Rightarrow>
               if regenerate then
                 (case RegenerateAgentKey E client (Server_ID server) w1 of
                    (Inl err, w2) \<Rightarrow> (Some (Wrapf ''failed to regenerate key: '' err), w2)
                  | (Inr resp, w2) \<Rightarrow> (outputSwitch E F, w2))
               else (outputSwitch E F, w1)))"

section \<open>Web instance commands\<close>

definition webListCmd :: "env \<Rightarrow> flags \<Rightarrow> world \<Rightarrow> error option \<times> world" where
  "webListCmd E F w =
     (case requireLogin w of
        Some err \<Rightarrow> (Some err, w)
      | None \<Rightarrow>
          (case ListWebInstances E (NewClient w) w of
             (Inl err, w1) \<Rightarrow> (Some (Wrapf ''failed to list web instances: '' err), w1)
           | (Inr instances, w1) \<Rightarrow> (outputSwitch E F, w1)))"

definition webRemoveCmd :: "env \<Rightarrow> flags \<Rightarrow> string \<Rightarrow> bool \<Rightarrow> world \<Rightarrow> error option \<times> world" where
  "webRemoveCmd E F instanceID force w =
     (case requireLogin w of
        Some err \<Rightarrow> (Some err, w)
      | None \<Rightarrow>
          let client = NewClient w in
          (case GetWebInstance E client instanceID w of
             (Inl err, w1) \<Rightarrow> (Some (Errorf (''web instance not found: '' @ instanceID)), w1)
           | (Inr instance, w1) \<Rightarrow>
               if \<not> confirmed E force then (None, w1)
               else
                 (case RemoveWebInstance E client (Web_ID instance) w1 of
                    (Some err, w2) \<Rightarrow> (Some (Wrapf ''failed to remove instance: '' err), w2)
                  | (None, w2) \<Rightarrow> (None, w2))))"

definition webStatusCmd :: "env \<Rightarrow> flags \<Rightarrow> world \<Rightarrow> error option \<times> world" where
  "webStatusCmd E F w =
     (case requireLogin w of
        Some err \<Rightarrow> (Some err, w)
      | None \<Rightarrow>
          let client = NewClient w in
          (case GetUserPlan E client w of
             (Inl err, w1) \<Rightarrow> (Some (Wrapf ''failed to get plan: '' err), w1)
           | (Inr plan, w1) \<Rightarrow>
               (case ListWebInstances E client w1 of
                  (Inl err, w2) \<Rightarrow> (Some (Wrapf ''failed to list instances: '' err), w2)
                | (Inr instances, w2) \<Rightarrow> (outputSwitch E F, w2))))"

definition webCheckCmd :: "env \<Rightarrow> flags \<Rightarrow> string \<Rightarrow> world \<Rightarrow> error option \<times> world" where
  "webCheckCmd E F instanceID w =
     (case requireLogin w of
        Some err \<Rightarrow> (Some err, w)
      | None \<Rightarrow>
          let client = NewClient w in
          (case GetWebInstance E client instanceID w of
             (Inl err, w1) \<Rightarrow> (Some (Errorf (''web instance not found: '' @ instanceID)), w1)
           | (Inr instance, w1) \<Rightarrow>
               (case CheckWebInstance E client (Web_ID instance) w1 of
                  (Inl err, w2) \<Rightarrow> (None, w2)
                | (Inr status, w2) \<Rightarrow> (outputSwitch E F, w2))))"

section \<open>Deployment over SSH\<close>

text \<open>
  \<open>strings.SplitN(hostArg, "@", 2)\<close> cuts at the first \<open>@\<close>: what precedes it and
  everything after it.
\<close>

definition parseSSHHost :: "string \<Rightarrow> string \<times> string" where
  "parseSSHHost hostArg =
     (if CHR ''@'' \<in> set hostArg then
        (takeWhile (\<lambda>ch. ch \<noteq> CHR ''@'') hostArg, tl (dropWhile (\<lambda>ch. ch \<noteq> CHR ''@'') hostArg))
      else ([], hostArg))"

definition buildSSHArgs :: "flags \<Rightarrow> string \<Rightarrow> string \<Rightarrow> string list" where
  "buildSSHArgs F user host =
     (let args0 = [];
          args1 = (if sshPort F \<noteq> 0 then args0 @ [''-p'', itoa (sshPort F)] else args0);
          args2 = (if sshKey F \<noteq> [] then args1 @ [''-i'', sshKey F] else args1);
          target = (if user \<noteq> [] then user @ ''@'' @ host else host)
      in args2 @ [target])"

definition runSSHCommand :: "env \<Rightarrow> string list \<Rightarrow> string \<Rightarrow> world \<Rightarrow> error option \<times> world" where
  "runSSHCommand E sshArgs command w =
     (case look_path E of
        Inl err \<Rightarrow> (Some (Errorf ''ssh not found in PATH. Please install OpenSSH''), w)
      | Inr sshPath \<Rightarrow>
          let fullArgs = sshArgs @ [command];
              w1 = emit (Exec sshPath fullArgs) w
          in (run_process E (events w1), w1))"

definition sshAgentCmd :: "env \<Rightarrow> flags \<Rightarrow> string \<Rightarrow> string \<Rightarrow> string \<Rightarrow> world \<Rightarrow> error option \<times> world" where
  "sshAgentCmd E F hostArg nameFlag existingServerID w =
     (case requireLogin w of
        Some err \<Rightarrow> (Some err, w)
      | None \<Rightarrow>
          let (user0, host) = parseSSHHost hostArg;
              user1 = (if sshUser F \<noteq> [] then sshUser F else user0);
              user = (if user1 = [] then ''root'' else user1);
              serverName = (if nameFlag = [] then host else nameFlag);
              client = NewClient w
          in
          (case (if existingServerID \<noteq> [] then
                   (case findServerByNameOrID E client existingServerID w of
                      (Inl err, w1) \<Rightarrow> (Inl err, w1)
                    | (Inr server, w1) \<Rightarrow> (Inr (Server_ID server, Server_AgentKey server), w1))
                 else
                   (case CreateServer E client serverName w of
                      (Inl err, w1) \<Rightarrow> (Inl (Wrapf ''failed to create server: '' err), w1)
                    | (Inr server, w1) \<Rightarrow> (Inr (Server_ID server, Server_AgentKey server), w1)))
           of
             (Inl err, w1) \<Rightarrow> (Some err, w1)
           | (Inr (serverID, agentKey), w1) \<Rightarrow>
               let sshArgs = buildSSHArgs F user host;
                   cloudURL = (if Config_CloudURL (cfg w1) = [] then ''https://api.vstats.zsoft.cc''
                               else Config_CloudURL (cfg w1));
                   installCmd =
                     ''curl -fsSL https://vstats.zsoft.cc/agent.sh | sudo bash -s -- --server ''
                     @ quoted cloudURL @ '' --token '' @ quoted (Config_Token (cfg w1))
                     @ '' --name '' @ quoted serverName
               in
               (case runSSHCommand E sshArgs installCmd w1 of
                  (Some err, w2) \<Rightarrow> (Some (Wrapf ''deployment failed: '' err), w2)
                | (None, w2) \<Rightarrow> (None, w2))))"

definition sshWebCmd :: "env \<Rightarrow> flags \<Rightarrow> string \<Rightarrow> string \<Rightarrow> int \<Rightarrow> string \<Rightarrow> bool \<Rightarrow> world \<Rightarrow> error option \<times> world" where
  "sshWebCmd E F hostArg nameFlag webPortFlag domain enableSSL w =
     (case requireLogin w of
        Some err \<Rightarrow> (Some err, w)
      | None \<Rightarrow>
          let client = NewClient w in
          (case GetUserPlan E client w of
             (Inl err, w1) \<Rightarrow> (Some (Wrapf ''failed to check plan: '' err), w1)
           | (Inr plan, w1) \<Rightarrow>
               if \<not> Plan_IsPro plan \<and> Plan_CurrentCount plan \<ge> Plan_MaxWebApps plan then
                 (Some (Errorf ''web instance limit reached''), w1)
               else
                 let (user0, host) = parseSSHHost hostArg;
                     user1 = (if sshUser F \<noteq> [] then sshUser F else user0);
                     user = (if user1 = [] then ''root'' else user1);
                     webName = (if nameFlag = [] then ''web-'' @ host else nameFlag);
                     webPort = (if webPortFlag = 0 then 3001 else webPortFlag)
                 in
                 (case RegisterWebInstance E client
                         \<lparr>Web_ID = [], Web_Name = webName, Web_Host = host, Web_Port = webPort,
                          Web_URL = buildWebURL host webPort domain enableSSL, Web_Status = [],
                          Web_Version = [], Web_CloudMode = False, Web_SSLEnabled = False\<rparr> w1
                  of
                    (Inl err, w2) \<Rightarrow> (Some (Wrapf ''failed to register web instance: '' err), w2)
                  | (Inr instance, w2) \<Rightarrow>
                      let sshArgs = buildSSHArgs F user host;
                          cloudURL = (if Config_CloudURL (cfg w2) = []
                                      then ''https://api.vstats.zsoft.cc''
                                      else Config_CloudURL (cfg w2));
                          installCmd0 =
                            ''curl -fsSL https://vstats.zsoft.cc/install.sh | sudo bash -s -- --cloud-mode --cloud-url ''
                            @ quoted cloudURL @ '' --cloud-token '' @ quoted (Config_Token (cfg w2))
                            @ '' --port '' @ itoa webPort;
                          installCmd = (if enableSSL \<and> domain \<noteq> []
                                        then installCmd0 @ '' --ssl --domain '' @ quoted domain
                                        else installCmd0)
                      in
                      (case runSSHCommand E sshArgs installCmd w2 of
                         (Some err, w3) \<Rightarrow>
                           (case RemoveWebInstance E client (Web_ID instance) w3 of
                              (cleanup, w4) \<Rightarrow> (Some (Wrapf ''deployment failed: '' err), w4))
                       | (None, w3) \<Rightarrow>
                           (case UpdateWebInstance E client (instance\<lparr>Web_Status := ''online''\<rparr>) w3 of
                              (updateErr, w4) \<Rightarrow> (None, w4))))))"

section \<open>The command tree\<close>

text \<open>
  The commands registered under \<open>rootCmd\<close> that talk to the cloud or to the session,
  each with its arguments and its own flags.
\<close>

datatype command =
  Login string
| Logout
| Whoami
| ServerList
| ServerCreate string
| ServerShow string
| ServerDelete string bool
| ServerUpdate string string
| ServerMetricsOf string
| ServerHistory string string
| ServerInstall string
| ServerKey string bool
| WebList
| WebRemove string bool
| WebStatus
| WebCheck string
| SSHAgent string string string
| SSHWeb string string int string bool

fun Execute :: "env \<Rightarrow> flags \<Rightarrow> command \<Rightarrow> world \<Rightarrow> error option \<times> world" where
  "Execute E F (Login loginToken) w = runLogin E loginToken w"
| "Execute E F Logout w = logoutCmd E w"
| "Execute E F Whoami w = whoamiCmd E F w"
| "Execute E F ServerList w = serverListCmd E F w"
| "Execute E F (ServerCreate name) w = serverCreateCmd E F name w"
| "Execute E F (ServerShow serverID) w = serverShowCmd E F serverID w"
| "Execute E F (ServerDelete serverID force) w = serverDeleteCmd E F serverID force w"
| "Execute E F (ServerUpdate serverID name) w = serverUpdateCmd E F serverID name w"
| "Execute E F (ServerMetricsOf serverID) w = serverMetricsCmd E F serverID w"
| "Execute E F (ServerHistory serverID rangeFlag) w = serverHistoryCmd E F serverID rangeFlag w"
| "Execute E F (ServerInstall serverID) w = serverInstallCmd E F serverID w"
| "Execute E F (ServerKey serverID regenerate) w = serverKeyCmd E F serverID regenerate w"
| "Execute E F WebList w = webListCmd E F w"
| "Execute E F (WebRemove instanceID force) w = webRemoveCmd E F instanceID force w"
| "Execute E F WebStatus w = webStatusCmd E F w"
| "Execute E F (WebCheck instanceID) w = webCheckCmd E F instanceID w"
| "Execute E F (SSHAgent hostArg nameFlag existingServerID) w =
     sshAgentCmd E F hostArg nameFlag existingServerID w"
| "Execute E F (SSHWeb hostArg nameFlag webPortFlag domain enableSSL) w =
     sshWebCmd E F hostArg nameFlag webPortFlag domain enableSSL w"

text \<open>The commands under \<open>server\<close>, \<open>web\<close> and \<open>ssh\<close>, and \<open>whoami\<close>.\<close>

fun requiresAuth :: "command \<Rightarrow> bool" where
  "requiresAuth (Login loginToken) = False"
| "requiresAuth Logout = False"
| "requiresAuth cmd = True"

section \<open>What the deployment commands send\<close>

text \<open>
  Names for the values that \<open>sshAgentCmd\<close> and \<open>sshWebCmd\<close> compute on the way, so
  that statements about their steps can mention them: the SSH user and host after the
  \<open>--user\<close> override and the \<open>root\<close> default, the name given to a new server, the
  remote install commands, and the record sent to register a web instance.
\<close>

definition sshTarget :: "flags \<Rightarrow> string \<Rightarrow> string \<times> string" where
  "sshTarget F hostArg =
     (let user0 = fst (parseSSHHost hostArg);
          user1 = (if sshUser F \<noteq> [] then sshUser F else user0)
      in (if user1 = [] then ''root'' else user1, snd (parseSSHHost hostArg)))"

definition cloudURLOrDefault :: "Config \<Rightarrow> string" where
  "cloudURLOrDefault c =
     (if Config_CloudURL c = [] then ''https://api.vstats.zsoft.cc'' else Config_CloudURL c)"

definition agentServerName :: "string \<Rightarrow> string \<Rightarrow> string" where
  "agentServerName hostArg nameFlag =
     (if nameFlag = [] then snd (parseSSHHost hostArg) else nameFlag)"

definition agentInstallCmd :: "Config \<Rightarrow> string \<Rightarrow> string" where
  "agentInstallCmd c serverName =
     ''curl -fsSL https://vstats.zsoft.cc/agent.sh | sudo bash -s -- --server ''
     @ quoted (cloudURLOrDefault c) @ '' --token '' @ quoted (Config_Token c)
     @ '' --name '' @ quoted serverName"

definition webPortOrDefault :: "int \<Rightarrow> int" where
  "webPortOrDefault webPortFlag = (if webPortFlag = 0 then 3001 else webPortFlag)"

definition webRegistration :: "string \<Rightarrow> string \<Rightarrow> int \<Rightarrow> string \<Rightarrow> bool \<Rightarrow> WebInstance" where
  "webRegistration hostArg nameFlag webPortFlag domain enableSSL =
     (let host = snd (parseSSHHost hostArg) in
      \<lparr>Web_ID = [],
       Web_Name = (if nameFlag = [] then ''web-'' @ host else nameFlag),
       Web_Host = host,
       Web_Port = webPortOrDefault webPortFlag,
       Web_URL = buildWebURL host (webPortOrDefault webPortFlag) domain enableSSL,
       Web_Status = [], Web_Version = [], Web_CloudMode = False, Web_SSLEnabled = False\<rparr>)"

definition webInstallCmd :: "Config \<Rightarrow> int \<Rightarrow> string \<Rightarrow> bool \<Rightarrow> string" where
  "webInstallCmd c webPortFlag domain enableSSL =
     (let installCmd =
            ''curl -fsSL https://vstats.zsoft.cc/install.sh | sudo bash -s -- --cloud-mode --cloud-url ''
            @ quoted (cloudURLOrDefault c) @ '' --cloud-token '' @ quoted (Config_Token c)
            @ '' --port '' @ itoa (webPortOrDefault webPortFlag)
      in if enableSSL \<and> domain \<noteq> [] then installCmd @ '' --ssl --domain '' @ quoted domain
         else installCmd)"

text \<open>The events a command added to those of the world it started from.\<close>

definition added :: "world \<Rightarrow> world \<Rightarrow> event list" where
  "added w w' = drop (length (events w)) (events w')"

fun isDelete :: "event \<Rightarrow> bool" where
  "isDelete (Request c method path b) = (method = ''DELETE'')"
| "isDelete ev = False"

fun isRegister :: "event \<Rightarrow> bool" where
  "isRegister (Request c method path b) = (method = ''POST'' \<and> path = ''/api/web/instances'')"
| "isRegister ev = False"

section \<open>A fake gateway\<close>

text \<open>
  A small cloud to run the commands against: three servers, two of which share the name
  \<open>beta\<close>; fetch-by-ID knows only \<open>id-1\<close>; the plan is a free plan with room for one
  web instance; registration answers with the instance \<open>web-1\<close>; the SSH subprocess
  exits with an error; everything else succeeds.
\<close>

definition srvA :: Server where
  "srvA = \<lparr>Server_ID = ''id-1'', Server_Name = ''alpha'', Server_Hostname = None,
     Server_IPAddress = None, Server_AgentKey = ''key-1'', Server_AgentVersion = None,
     Server_OSType = None, Server_OSVersion = None, Server_Status = ''online''\<rparr>"

definition srvB :: Server where
  "srvB = srvA\<lparr>Server_ID := ''id-2'', Server_Name := ''beta'', Server_AgentKey := ''key-2''\<rparr>"

definition srvC :: Server where
  "srvC = srvA\<lparr>Server_ID := ''id-3'', Server_Name := ''beta'', Server_AgentKey := ''key-3''\<rparr>"

definition freePlan :: UserPlan where
  "freePlan = \<lparr>Plan_Plan = ''free'', Plan_MaxWebApps = 1, Plan_CurrentCount = 0, Plan_IsPro = False\<rparr>"

definition webOne :: WebInstance where
  "webOne = \<lparr>Web_ID = ''web-1'', Web_Name = ''web-h'', Web_Host = ''h'', Web_Port = 3001,
     Web_URL = ''http://h:3001'', Web_Status = ''pending'', Web_Version = [],
     Web_CloudMode = True, Web_SSLEnabled = False\<rparr>"

definition verified :: VerifyResponse where
  "verified = \<lparr>Verify_Valid = True, Verify_UserID = ''u-1'', Verify_Username = ''ada'',
     Verify_Plan = ''free''\<rparr>"

definition lastPath :: "event list \<Rightarrow> string" where
  "lastPath evs = (if evs = [] then [] else (case last evs of Request c m path b \<Rightarrow> path | _ \<Rightarrow> []))"

definition fakeGateway :: env where
  "fakeGateway = \<lparr>
     reply_server = (\<lambda>evs. if lastPath evs = ''/api/servers/id-1'' then Inr srvA
                           else if lastPath evs = ''/api/servers'' then Inr (srvA\<lparr>Server_ID := ''id-9'', Server_Name := ''h''\<rparr>)
                           else Inl (Foreign ''request failed with status 404: '')),
     reply_servers = (\<lambda>evs. Inr [srvA, srvB, srvC]),
     reply_none = (\<lambda>evs. Some (Foreign ''request failed with status 500: '')),
     reply_verify = (\<lambda>evs. Inr verified),
     reply_user = (\<lambda>evs. Inl (Foreign ''request failed with status 500: '')),
     reply_key = (\<lambda>evs. Inl (Foreign ''request failed with status 500: '')),
     reply_install = (\<lambda>evs. Inl (Foreign ''request failed with status 500: '')),
     reply_metrics = (\<lambda>evs. Inl (Foreign ''request failed with status 500: '')),
     reply_history = (\<lambda>evs. Inl (Foreign ''request failed with status 500: '')),
     reply_instance = (\<lambda>evs. Inr webOne),
     reply_instances = (\<lambda>evs. Inr []),
     reply_check = (\<lambda>evs. Inl (Foreign ''request failed with status 500: '')),
     reply_plan = (\<lambda>evs. Inr freePlan),
     look_path = Inr ''/usr/bin/ssh'',
     run_process = (\<lambda>evs. Some (Foreign ''exit status 1'')),
     write_config = (\<lambda>evs. None),
     scan_confirm = ''y'',
     prompt_token = Inr ''tok-2'',
     now = 1700000000123456789,
     marshal_out = None\<rparr>"

definition noFlags :: flags where
  "noFlags = \<lparr>outputFmt = ''table'', sshUser = [], sshPort = 0, sshKey = []\<rparr>"

definition loggedOut :: world where
  "loggedOut = \<lparr>cfg = \<lparr>Config_CloudURL = ''https://api.vstats.zsoft.cc'', Config_Token = [],
       Config_Username = [], Config_ExpiresAt = 0\<rparr>, disk = None, events = []\<rparr>"

definition loggedIn :: world where
  "loggedIn = \<lparr>cfg = \<lparr>Config_CloudURL = ''https://api.vstats.zsoft.cc'', Config_Token = ''tok'',
       Config_Username = ''ada'', Config_ExpiresAt = 1700000000\<rparr>, disk = None, events = []\<rparr>"

section \<open>Basic facts\<close>

lemma events_emit: "events (emit ev w) = events w @ [ev]"
  by (simp add: emit_def)

lemma cfg_emit: "cfg (emit ev w) = cfg w"
  by (simp add: emit_def)

lemma disk_emit: "disk (emit ev w) = disk w"
  by (simp add: emit_def)

lemma added_emit1: "added w (emit a w) = [a]"
  by (simp add: added_def events_emit)

lemma added_emit2: "added w (emit b (emit a w)) = [a, b]"
  by (simp add: added_def events_emit)

lemma added_emit3: "added w (emit c (emit b (emit a w))) = [a, b, c]"
  by (simp add: added_def events_emit)

lemma added_emit4: "added w (emit d (emit c (emit b (emit a w)))) = [a, b, c, d]"
  by (simp add: added_def events_emit)

text \<open>Every client call leaves one request behind, whatever the reply.\<close>

lemma Do_world: "Do r c m p b w = (res, wa) \<Longrightarrow> wa = emit (Request c m p b) w"
  by (auto simp: Do_def Let_def)

lemma GetServer_world:
  "GetServer E c r w = (res, wa) \<Longrightarrow>
   wa = emit (Request c ''GET'' (''/api/servers/'' @ r) NoBody) w"
  unfolding GetServer_def by (rule Do_world)

lemma ListServers_world:
  "ListServers E c w = (res, wa) \<Longrightarrow> wa = emit (Request c ''GET'' ''/api/servers'' NoBody) w"
  unfolding ListServers_def by (rule Do_world)

lemma CreateServer_world:
  "CreateServer E c name w = (res, wa) \<Longrightarrow>
   wa = emit (Request c ''POST'' ''/api/servers'' (NameBody name)) w"
  unfolding CreateServer_def by (rule Do_world)

lemma GetUserPlan_world:
  "GetUserPlan E c w = (res, wa) \<Longrightarrow> wa = emit (Request c ''GET'' ''/api/user/plan'' NoBody) w"
  unfolding GetUserPlan_def get_def by (drule Do_world) simp

lemma RegisterWebInstance_world:
  "RegisterWebInstance E c i w = (res, wa) \<Longrightarrow>
   wa = emit (Request c ''POST'' ''/api/web/instances'' (InstanceBody i)) w"
  unfolding RegisterWebInstance_def post_def by (drule Do_world) simp

lemma RemoveWebInstance_world:
  "RemoveWebInstance E c i w = (res, wa) \<Longrightarrow>
   wa = emit (Request c ''DELETE'' (''/api/web/instances/'' @ i) NoBody) w"
  unfolding RemoveWebInstance_def delete_def by (drule Do_world) simp

lemma runSSHCommand_world:
  "runSSHCommand E args command w = (res, wa) \<Longrightarrow>
   wa = w \<or> (\<exists>sshPath. wa = emit (Exec sshPath (args @ [command])) w)"
  by (auto simp: runSSHCommand_def Let_def split: sum.splits)

lemma requireLogin_in: "IsLoggedIn w \<Longrightarrow> requireLogin w = None"
  by (simp add: requireLogin_def)

lemma requireLogin_out:
  "\<not> IsLoggedIn w \<Longrightarrow>
   requireLogin w = Some (Errorf ''not logged in. Run 'vstats login' first'')"
  by (simp add: requireLogin_def)

lemma scanServers_first:
  "\<forall>x\<in>set before. Server_Name x \<noteq> r \<Longrightarrow> Server_Name s = r \<Longrightarrow>
   scanServers r (before @ s # rest) = Some s"
  by (induction before) auto

lemma scanServers_none:
  "\<forall>x\<in>set servers. Server_Name x \<noteq> r \<Longrightarrow> scanServers r servers = None"
  by (induction servers) auto

lemma Unix_Add_week: "Unix (Add t (7 * 24 * Hour)) = Unix t + 7 * 24 * 3600"
proof -
  have "Add t (7 * 24 * Hour) = t + 604800 * 1000000000"
    by (simp add: Add_def Hour_def)
  then show ?thesis
    by (simp add: Unix_def)
qed

lemma itoa_8080: "itoa 8080 = ''8080''"
  by (simp add: itoa_def digits10.simps digit_def)

lemma itoa_3001: "itoa 3001 = ''3001''"
  by (simp add: itoa_def digits10.simps digit_def)

lemma itoa_443: "itoa 443 = ''443''"
  by (simp add: itoa_def digits10.simps digit_def)

subsection \<open>The deployment commands, step by step\<close>

lemma sshAgentCmd_steps:
  "sshAgentCmd E F hostArg nameFlag [] w =
     (case requireLogin w of
        Some err \<Rightarrow> (Some err, w)
      | None \<Rightarrow>
          (case CreateServer E (NewClient w) (agentServerName hostArg nameFlag) w of
             (Inl err, wa) \<Rightarrow> (Some (Wrapf ''failed to create server: '' err), wa)
           | (Inr server, wa) \<Rightarrow>
               (case runSSHCommand E
                       (buildSSHArgs F (fst (sshTarget F hostArg)) (snd (sshTarget F hostArg)))
                       (agentInstallCmd (cfg wa) (agentServerName hostArg nameFlag)) wa of
                  (Some err, wb) \<Rightarrow> (Some (Wrapf ''deployment failed: '' err), wb)
                | (None, wb) \<Rightarrow> (None, wb))))"
proof (cases "requireLogin w")
  case (Some e)
  then show ?thesis by (simp add: sshAgentCmd_def)
next
  case None
  obtain res wa where c: "CreateServer E (NewClient w) (agentServerName hostArg nameFlag) w = (res, wa)"
    by (cases "CreateServer E (NewClient w) (agentServerName hostArg nameFlag) w")
  show ?thesis
  proof (cases res)
    case (Inl err)
    with c None show ?thesis
      unfolding sshAgentCmd_def agentServerName_def sshTarget_def agentInstallCmd_def
        cloudURLOrDefault_def
      by (simp add: Let_def case_prod_beta cong: if_cong split del: if_split)
  next
    case (Inr server)
    with c None show ?thesis
      unfolding sshAgentCmd_def agentServerName_def sshTarget_def agentInstallCmd_def
        cloudURLOrDefault_def
      by (simp add: Let_def case_prod_beta cong: if_cong split del: if_split)
  qed
qed

lemma sshWebCmd_steps:
  "sshWebCmd E F hostArg nameFlag webPortFlag domain enableSSL w =
     (case requireLogin w of
        Some err \<Rightarrow> (Some err, w)
      | None \<Rightarrow>
          (case GetUserPlan E (NewClient w) w of
             (Inl err, wa) \<Rightarrow> (Some (Wrapf ''failed to check plan: '' err), wa)
           | (Inr plan, wa) \<Rightarrow>
               if \<not> Plan_IsPro plan \<and> Plan_CurrentCount plan \<ge> Plan_MaxWebApps plan then
                 (Some (Errorf ''web instance limit reached''), wa)
               else
                 (case RegisterWebInstance E (NewClient w)
                         (webRegistration hostArg nameFlag webPortFlag domain enableSSL) wa of
                    (Inl err, wb) \<Rightarrow> (Some (Wrapf ''failed to register web instance: '' err), wb)
                  | (Inr instance, wb) \<Rightarrow>
                      (case runSSHCommand E
                              (buildSSHArgs F (fst (sshTarget F hostArg)) (snd (sshTarget F hostArg)))
                              (webInstallCmd (cfg wb) webPortFlag domain enableSSL) wb of
                         (Some err, wc) \<Rightarrow>
                           (Some (Wrapf ''deployment failed: '' err),
                            snd (RemoveWebInstance E (NewClient w) (Web_ID instance) wc))
                       | (None, wc) \<Rightarrow>
                           (None, snd (UpdateWebInstance E (NewClient w)
                                         (instance\<lparr>Web_Status := ''online''\<rparr>) wc))))))"
proof (cases "requireLogin w")
  case (Some e)
  then show ?thesis by (simp add: sshWebCmd_def)
next
  case None
  obtain res wa where p: "GetUserPlan E (NewClient w) w = (res, wa)"
    by (cases "GetUserPlan E (NewClient w) w")
  show ?thesis
  proof (cases res)
    case (Inl err)
    with p None show ?thesis by (simp add: sshWebCmd_def Let_def)
  next
    case (Inr plan)
    note plan = this
    show ?thesis
    proof (cases "\<not> Plan_IsPro plan \<and> Plan_CurrentCount plan \<ge> Plan_MaxWebApps plan")
      case True
      with p None plan show ?thesis by (simp add: sshWebCmd_def Let_def)
    next
      case False
      obtain res2 wb where r: "RegisterWebInstance E (NewClient w)
          (webRegistration hostArg nameFlag webPortFlag domain enableSSL) wa = (res2, wb)"
        by (cases "RegisterWebInstance E (NewClient w)
          (webRegistration hostArg nameFlag webPortFlag domain enableSSL) wa")
      show ?thesis
      proof (cases res2)
        case (Inl err)
        with p None plan r show ?thesis
          unfolding sshWebCmd_def webRegistration_def webPortOrDefault_def
          by (simp add: Let_def case_prod_beta if_not_P [OF False] cong: if_cong
              split del: if_split)
      next
        case (Inr inst)
        with p None plan r show ?thesis
          unfolding sshWebCmd_def webRegistration_def webPortOrDefault_def sshTarget_def
            webInstallCmd_def cloudURLOrDefault_def
          by (simp add: Let_def case_prod_beta if_not_P [OF False] cong: if_cong option.case_cong
              split del: if_split)
      qed
    qed
  qed
qed

lemma sshWebCmd_limit:
  assumes "IsLoggedIn w" and "GetUserPlan E (NewClient w) w = (Inr plan, wa)"
    and "\<not> Plan_IsPro plan" and "Plan_MaxWebApps plan \<le> Plan_CurrentCount plan"
  shows "sshWebCmd E F hostArg nameFlag webPortFlag domain enableSSL w =
           (Some (Errorf ''web instance limit reached''), wa)"
  using assms by (simp add: sshWebCmd_steps requireLogin_in)

subsection \<open>The fake gateway's answers\<close>

lemma fake_GetServer_id1:
  "GetServer fakeGateway c ''id-1'' w =
     (Inr srvA, emit (Request c ''GET'' ''/api/servers/id-1'' NoBody) w)"
  by (simp add: GetServer_def Do_def Let_def fakeGateway_def lastPath_def emit_def)

lemma fake_GetServer_beta:
  "GetServer fakeGateway c ''beta'' w =
     (Inl (Foreign ''request failed with status 404: ''),
      emit (Request c ''GET'' ''/api/servers/beta'' NoBody) w)"
  by (simp add: GetServer_def Do_def Let_def fakeGateway_def lastPath_def emit_def)

lemma fake_GetServer_gamma:
  "GetServer fakeGateway c ''gamma'' w =
     (Inl (Foreign ''request failed with status 404: ''),
      emit (Request c ''GET'' ''/api/servers/gamma'' NoBody) w)"
  by (simp add: GetServer_def Do_def Let_def fakeGateway_def lastPath_def emit_def)

lemma fake_ListServers:
  "ListServers fakeGateway c w =
     (Inr [srvA, srvB, srvC], emit (Request c ''GET'' ''/api/servers'' NoBody) w)"
  by (simp add: ListServers_def Do_def Let_def fakeGateway_def)

lemma fake_CreateServer:
  "CreateServer fakeGateway c name w =
     (Inr (srvA\<lparr>Server_ID := ''id-9'', Server_Name := ''h''\<rparr>),
      emit (Request c ''POST'' ''/api/servers'' (NameBody name)) w)"
  by (simp add: CreateServer_def Do_def Let_def fakeGateway_def lastPath_def emit_def)

lemma fake_GetUserPlan:
  "GetUserPlan (fakeGateway\<lparr>reply_plan := \<lambda>evs. Inr plan\<rparr>) c w =
     (Inr plan, emit (Request c ''GET'' ''/api/user/plan'' NoBody) w)"
  by (simp add: GetUserPlan_def get_def Do_def Let_def)

lemma fake_GetUserPlan_free:
  "GetUserPlan fakeGateway c w =
     (Inr freePlan, emit (Request c ''GET'' ''/api/user/plan'' NoBody) w)"
  by (simp add: GetUserPlan_def get_def Do_def Let_def fakeGateway_def)

lemma fake_RegisterWebInstance:
  "RegisterWebInstance fakeGateway c i w =
     (Inr webOne, emit (Request c ''POST'' ''/api/web/instances'' (InstanceBody i)) w)"
  by (simp add: RegisterWebInstance_def post_def Do_def Let_def fakeGateway_def)

lemma fake_RemoveWebInstance:
  "RemoveWebInstance fakeGateway c i w =
     (Some (Foreign ''request failed with status 500: ''),
      emit (Request c ''DELETE'' (''/api/web/instances/'' @ i) NoBody) w)"
  by (simp add: RemoveWebInstance_def delete_def Do_def Let_def fakeGateway_def)

lemma fake_runSSHCommand:
  "runSSHCommand fakeGateway args command w =
     (Some (Foreign ''exit status 1''), emit (Exec ''/usr/bin/ssh'' (args @ [command])) w)"
  by (simp add: runSSHCommand_def Let_def fakeGateway_def)

lemma loggedIn_IsLoggedIn: "IsLoggedIn loggedIn"
  by (simp add: IsLoggedIn_def loggedIn_def)

section \<open>Resolution of a server reference\<close>

text \<open>
  C1. For every reference \<open>r\<close>, \<open>findServerByNameOrID\<close> first fetches by ID. If that
  fetch succeeds it returns that server and the fetch is the only request made (no list
  call). If the fetch fails it requests the full listing, so that exactly the two
  requests are made, and when the listing arrives it returns the first server in it whose
  name equals \<open>r\<close> exactly (string equality, so case matters).
\<close>

theorem findServerByNameOrID_two_stage:
  "(GetServer E c r w = (Inr server, wa) \<longrightarrow>
      findServerByNameOrID E c r w = (Inr server, wa) \<and>
      added w wa = [Request c ''GET'' (''/api/servers/'' @ r) NoBody]) \<and>
   (GetServer E c r w = (Inl err, wa) \<longrightarrow>
      added w (snd (findServerByNameOrID E c r w)) =
        [Request c ''GET'' (''/api/servers/'' @ r) NoBody,
         Request c ''GET'' ''/api/servers'' NoBody]) \<and>
   (GetServer E c r w = (Inl err, wa) \<and>
    ListServers E c wa = (Inr (before @ s # rest), wb) \<and>
    (\<forall>x\<in>set before. Server_Name x \<noteq> r) \<and> Server_Name s = r \<longrightarrow>
      findServerByNameOrID E c r w = (Inr s, wb))"
proof (intro conjI impI)
  assume g: "GetServer E c r w = (Inr server, wa)"
  then show "findServerByNameOrID E c r w = (Inr server, wa)"
    by (simp add: findServerByNameOrID_def)
  from GetServer_world [OF g]
  show "added w wa = [Request c ''GET'' (''/api/servers/'' @ r) NoBody]"
    by (simp add: added_emit1)
next
  assume g: "GetServer E c r w = (Inl err, wa)"
  obtain res wb' where l: "ListServers E c wa = (res, wb')"
    by (cases "ListServers E c wa")
  have "snd (findServerByNameOrID E c r w) = wb'"
    using g l by (simp add: findServerByNameOrID_def split: sum.splits option.splits)
  then show "added w (snd (findServerByNameOrID E c r w)) =
        [Request c ''GET'' (''/api/servers/'' @ r) NoBody,
         Request c ''GET'' ''/api/servers'' NoBody]"
    using GetServer_world [OF g] ListServers_world [OF l]
    by (simp add: added_emit2)
next
  assume a: "GetServer E c r w = (Inl err, wa) \<and>
    ListServers E c wa = (Inr (before @ s # rest), wb) \<and>
    (\<forall>x\<in>set before. Server_Name x \<noteq> r) \<and> Server_Name s = r"
  then have "scanServers r (before @ s # rest) = Some s"
    using scanServers_first by blast
  with a show "findServerByNameOrID E c r w = (Inr s, wb)"
    by (simp add: findServerByNameOrID_def)
qed

theorem findServerByNameOrID_two_stage_witness:
  "findServerByNameOrID fakeGateway (NewClient loggedIn) ''id-1'' loggedIn =
     (Inr srvA, emit (Request (NewClient loggedIn) ''GET'' ''/api/servers/id-1'' NoBody) loggedIn) \<and>
   added loggedIn (snd (findServerByNameOrID fakeGateway (NewClient loggedIn) ''beta'' loggedIn)) =
     [Request (NewClient loggedIn) ''GET'' ''/api/servers/beta'' NoBody,
      Request (NewClient loggedIn) ''GET'' ''/api/servers'' NoBody] \<and>
   fst (findServerByNameOrID fakeGateway (NewClient loggedIn) ''beta'' loggedIn) = Inr srvB"
proof -
  let ?c = "NewClient loggedIn"
  let ?wa = "emit (Request ?c ''GET'' ''/api/servers/beta'' NoBody) loggedIn"
  let ?wb = "emit (Request ?c ''GET'' ''/api/servers'' NoBody) ?wa"
  have l: "ListServers fakeGateway ?c ?wa = (Inr ([srvA] @ srvB # [srvC]), ?wb)"
    by (simp add: fake_ListServers)
  have n: "(\<forall>x\<in>set [srvA]. Server_Name x \<noteq> ''beta'') \<and> Server_Name srvB = ''beta''"
    by (simp add: srvA_def srvB_def)
  from findServerByNameOrID_two_stage
         [where E = fakeGateway and c = ?c and r = "''id-1''" and w = loggedIn and server = srvA
            and wa = "emit (Request ?c ''GET'' ''/api/servers/id-1'' NoBody) loggedIn"]
  have fast: "findServerByNameOrID fakeGateway ?c ''id-1'' loggedIn =
     (Inr srvA, emit (Request ?c ''GET'' ''/api/servers/id-1'' NoBody) loggedIn)"
    by (simp add: fake_GetServer_id1)
  from findServerByNameOrID_two_stage
         [where E = fakeGateway and c = ?c and r = "''beta''" and w = loggedIn
            and err = "Foreign ''request failed with status 404: ''" and wa = ?wa
            and before = "[srvA]" and s = srvB and rest = "[srvC]" and wb = ?wb]
       l n
  have slow: "added loggedIn (snd (findServerByNameOrID fakeGateway ?c ''beta'' loggedIn)) =
     [Request ?c ''GET'' ''/api/servers/beta'' NoBody, Request ?c ''GET'' ''/api/servers'' NoBody] \<and>
     findServerByNameOrID fakeGateway ?c ''beta'' loggedIn = (Inr srvB, ?wb)"
    by (simp add: fake_GetServer_beta added_emit2)
  from fast slow show ?thesis by (simp add: added_emit2)
qed

text \<open>
  C6. When the fetch by ID fails and no server is found by name either (the listing
  fails too, or it arrives and no server in it is named \<open>r\<close>), \<open>findServerByNameOrID\<close>
  fails with an error whose message is \<open>server not found: \<close> followed by the reference
  \<open>r\<close> as given, and which wraps no other error: the errors of the two fetches are dropped.
\<close>

theorem findServerByNameOrID_not_found:
  assumes "GetServer E c r w = (Inl err, wa)"
    and "ListServers E c wa = (Inl err2, wb) \<or>
         (\<exists>servers. ListServers E c wa = (Inr servers, wb) \<and>
                    (\<forall>s\<in>set servers. Server_Name s \<noteq> r))"
  shows "\<exists>e. findServerByNameOrID E c r w = (Inl e, wb) \<and>
             Error e = ''server not found: '' @ r \<and> Unwrap e = None"
  using assms(2)
proof
  assume "ListServers E c wa = (Inl err2, wb)"
  with assms(1) show ?thesis
    by (simp add: findServerByNameOrID_def)
next
  assume "\<exists>servers. ListServers E c wa = (Inr servers, wb) \<and>
                    (\<forall>s\<in>set servers. Server_Name s \<noteq> r)"
  then obtain servers where l: "ListServers E c wa = (Inr servers, wb)"
    and n: "\<forall>s\<in>set servers. Server_Name s \<noteq> r" by blast
  from n have "scanServers r servers = None" by (rule scanServers_none)
  with assms(1) l show ?thesis
    by (simp add: findServerByNameOrID_def)
qed

theorem findServerByNameOrID_not_found_witness:
  "\<exists>e. fst (findServerByNameOrID fakeGateway (NewClient loggedIn) ''gamma'' loggedIn) = Inl e \<and>
       Error e = ''server not found: gamma'' \<and> Unwrap e = None"
proof -
  let ?c = "NewClient loggedIn"
  let ?wa = "emit (Request ?c ''GET'' ''/api/servers/gamma'' NoBody) loggedIn"
  let ?wb = "emit (Request ?c ''GET'' ''/api/servers'' NoBody) ?wa"
  have g: "GetServer fakeGateway ?c ''gamma'' loggedIn =
             (Inl (Foreign ''request failed with status 404: ''), ?wa)"
    by (rule fake_GetServer_gamma)
  have "ListServers fakeGateway ?c ?wa = (Inr [srvA, srvB, srvC], ?wb) \<and>
        (\<forall>s\<in>set [srvA, srvB, srvC]. Server_Name s \<noteq> ''gamma'')"
    by (simp add: fake_ListServers srvA_def srvB_def srvC_def)
  then have l: "ListServers fakeGateway ?c ?wa = (Inl (Foreign []), ?wb) \<or>
         (\<exists>servers. ListServers fakeGateway ?c ?wa = (Inr servers, ?wb) \<and>
                    (\<forall>s\<in>set servers. Server_Name s \<noteq> ''gamma''))"
    by blast
  from findServerByNameOrID_not_found [OF g l] show ?thesis by auto
qed

section \<open>Authentication gate\<close>

text \<open>
  C7. Every command under \<open>server\<close>, \<open>web\<close> and \<open>ssh\<close> (and \<open>whoami\<close>), run with an
  empty session token, returns the error \<open>not logged in. Run 'vstats login' first\<close> and
  leaves the world as it was: no request has been sent, no process started, nothing written.
\<close>

theorem authenticated_commands_fail_fast:
  assumes "requiresAuth cmd" and "Config_Token (cfg w) = []"
  shows "Execute E F cmd w = (Some (Errorf ''not logged in. Run 'vstats login' first''), w)"
proof -
  from assms(2) have out: "\<not> IsLoggedIn w" by (simp add: IsLoggedIn_def)
  then have r: "requireLogin w = Some (Errorf ''not logged in. Run 'vstats login' first'')"
    by (rule requireLogin_out)
  from assms(1) show ?thesis
  proof (cases cmd)
    case Whoami
    with out show ?thesis by (simp add: whoamiCmd_def)
  next
    case ServerList
    with r show ?thesis by (simp add: serverListCmd_def)
  next
    case (ServerCreate x)
    with r show ?thesis by (simp add: serverCreateCmd_def)
  next
    case (ServerShow x)
    with r show ?thesis by (simp add: serverShowCmd_def)
  next
    case (ServerDelete x y)
    with r show ?thesis by (simp add: serverDeleteCmd_def)
  next
    case (ServerUpdate x y)
    with r show ?thesis by (simp add: serverUpdateCmd_def)
  next
    case (ServerMetricsOf x)
    with r show ?thesis by (simp add: serverMetricsCmd_def)
  next
    case (ServerHistory x y)
    with r show ?thesis by (simp add: serverHistoryCmd_def)
  next
    case (ServerInstall x)
    with r show ?thesis by (simp add: serverInstallCmd_def)
  next
    case (ServerKey x y)
    with r show ?thesis by (simp add: serverKeyCmd_def)
  next
    case WebList
    with r show ?thesis by (simp add: webListCmd_def)
  next
    case (WebRemove x y)
    with r show ?thesis by (simp add: webRemoveCmd_def)
  next
    case WebStatus
    with r show ?thesis by (simp add: webStatusCmd_def)
  next
    case (WebCheck x)
    with r show ?thesis by (simp add: webCheckCmd_def)
  next
    case (SSHAgent x y z)
    with r show ?thesis by (simp add: sshAgentCmd_def)
  next
    case (SSHWeb x y z u v)
    with r show ?thesis by (simp add: sshWebCmd_def)
  qed simp_all
qed

theorem authenticated_commands_fail_fast_witness:
  "requiresAuth (ServerDelete ''alpha'' True) \<and> Config_Token (cfg loggedOut) = [] \<and>
   Execute fakeGateway noFlags (ServerDelete ''alpha'' True) loggedOut =
     (Some (Errorf ''not logged in. Run 'vstats login' first''), loggedOut) \<and>
   events (snd (Execute fakeGateway noFlags (SSHWeb ''root@h'' [] 3001 [] False) loggedOut)) = []"
proof -
  have t: "Config_Token (cfg loggedOut) = []"
    by (simp add: loggedOut_def)
  have a: "requiresAuth (ServerDelete ''alpha'' True)" by simp
  have b: "requiresAuth (SSHWeb ''root@h'' [] 3001 [] False)" by simp
  have "events loggedOut = []" by (simp add: loggedOut_def)
  with authenticated_commands_fail_fast [OF a t, of fakeGateway noFlags]
    authenticated_commands_fail_fast [OF b t, of fakeGateway noFlags] t
  show ?thesis by simp
qed

section \<open>Web dashboard deployment\<close>

text \<open>
  C3. With a session, when the plan arrives with \<open>is_pro = false\<close> and
  \<open>current_count \<ge> max_web_apps\<close>, \<open>ssh web\<close> fails with the error
  \<open>web instance limit reached\<close>. The plan request is the only event of the run: no
  registration request is made, and neither the configuration nor its file changes.
\<close>

theorem sshWebCmd_quota_preflight:
  assumes "IsLoggedIn w" and "GetUserPlan E (NewClient w) w = (Inr plan, wa)"
    and "\<not> Plan_IsPro plan" and "Plan_CurrentCount plan \<ge> Plan_MaxWebApps plan"
  shows "sshWebCmd E F hostArg nameFlag webPortFlag domain enableSSL w =
           (Some (Errorf ''web instance limit reached''), wa) \<and>
         added w wa = [Request (NewClient w) ''GET'' ''/api/user/plan'' NoBody] \<and>
         filter isRegister (added w wa) = [] \<and>
         cfg wa = cfg w \<and> disk wa = disk w"
proof -
  have wa: "wa = emit (Request (NewClient w) ''GET'' ''/api/user/plan'' NoBody) w"
    using assms(2) by (rule GetUserPlan_world)
  have a: "added w wa = [Request (NewClient w) ''GET'' ''/api/user/plan'' NoBody]"
    unfolding wa by (rule added_emit1)
  have "filter isRegister (added w wa) = []"
    unfolding a by simp
  with a sshWebCmd_limit [OF assms] show ?thesis
    by (simp add: wa cfg_emit disk_emit)
qed

theorem sshWebCmd_quota_preflight_witness:
  "sshWebCmd (fakeGateway\<lparr>reply_plan := \<lambda>evs. Inr (freePlan\<lparr>Plan_CurrentCount := 1\<rparr>)\<rparr>)
     noFlags ''root@h'' [] 3001 [] False loggedIn =
     (Some (Errorf ''web instance limit reached''),
      emit (Request (NewClient loggedIn) ''GET'' ''/api/user/plan'' NoBody) loggedIn) \<and>
   filter isRegister
     (added loggedIn (emit (Request (NewClient loggedIn) ''GET'' ''/api/user/plan'' NoBody) loggedIn))
     = []"
proof -
  let ?plan = "freePlan\<lparr>Plan_CurrentCount := 1\<rparr>"
  have a: "\<not> Plan_IsPro ?plan" by (simp add: freePlan_def)
  have b: "Plan_CurrentCount ?plan \<ge> Plan_MaxWebApps ?plan" by (simp add: freePlan_def)
  from sshWebCmd_quota_preflight [OF loggedIn_IsLoggedIn fake_GetUserPlan a b]
  show ?thesis by simp
qed

text \<open>
  C9. With a session, when the plan arrives with \<open>is_pro = false\<close>, a negative
  \<open>max_web_apps\<close> and a \<open>current_count\<close> that is not negative, the comparison
  \<open>current_count \<ge> max_web_apps\<close> of the quota check holds and \<open>ssh web\<close> fails with
  \<open>web instance limit reached\<close>; \<open>formatLimit\<close> prints the same limit as \<open>unlimited\<close>.
\<close>

theorem negative_limit_blocks_deployment:
  assumes "IsLoggedIn w" and "GetUserPlan E (NewClient w) w = (Inr plan, wa)"
    and "\<not> Plan_IsPro plan" and "Plan_MaxWebApps plan < 0" and "0 \<le> Plan_CurrentCount plan"
  shows "Plan_CurrentCount plan \<ge> Plan_MaxWebApps plan \<and>
         sshWebCmd E F hostArg nameFlag webPortFlag domain enableSSL w =
           (Some (Errorf ''web instance limit reached''), wa) \<and>
         formatLimit (Plan_MaxWebApps plan) = ''unlimited''"
proof -
  from assms(4,5) have le: "Plan_MaxWebApps plan \<le> Plan_CurrentCount plan" by simp
  from assms(4) have "formatLimit (Plan_MaxWebApps plan) = ''unlimited''"
    by (simp add: formatLimit_def)
  with le sshWebCmd_limit [OF assms(1,2,3) le] show ?thesis by simp
qed

theorem negative_limit_blocks_deployment_witness:
  "fst (sshWebCmd (fakeGateway\<lparr>reply_plan := \<lambda>evs. Inr (freePlan\<lparr>Plan_MaxWebApps := - 1\<rparr>)\<rparr>)
          noFlags ''root@h'' [] 3001 [] False loggedIn) =
     Some (Errorf ''web instance limit reached'') \<and>
   formatLimit (Plan_MaxWebApps (freePlan\<lparr>Plan_MaxWebApps := - 1\<rparr>)) = ''unlimited''"
proof -
  let ?plan = "freePlan\<lparr>Plan_MaxWebApps := - 1\<rparr>"
  have a: "\<not> Plan_IsPro ?plan" by (simp add: freePlan_def)
  have b: "Plan_MaxWebApps ?plan < 0" by simp
  have c: "0 \<le> Plan_CurrentCount ?plan" by (simp add: freePlan_def)
  from negative_limit_blocks_deployment [OF loggedIn_IsLoggedIn fake_GetUserPlan a b c]
  show ?thesis by simp
qed

text \<open>
  C2. With a session and room in the plan, when the registration of the web instance
  succeeds with \<open>inst\<close> and the SSH step then fails with \<open>err\<close>, \<open>ssh web\<close> sends one
  \<open>DELETE\<close> for \<open>/api/web/instances/\<close> followed by the ID of \<open>inst\<close>, which is the only
  event after the SSH step and the only \<open>DELETE\<close> of the whole run, and returns
  \<open>deployment failed: \<close> wrapping \<open>err\<close>, whatever the outcome \<open>cleanup\<close> of that request.
\<close>

theorem sshWebCmd_compensates:
  assumes "IsLoggedIn w"
    and "GetUserPlan E (NewClient w) w = (Inr plan, wa)"
    and "Plan_IsPro plan \<or> Plan_CurrentCount plan < Plan_MaxWebApps plan"
    and "RegisterWebInstance E (NewClient w)
           (webRegistration hostArg nameFlag webPortFlag domain enableSSL) wa = (Inr inst, wb)"
    and "runSSHCommand E
           (buildSSHArgs F (fst (sshTarget F hostArg)) (snd (sshTarget F hostArg)))
           (webInstallCmd (cfg wb) webPortFlag domain enableSSL) wb = (Some err, wc)"
    and "RemoveWebInstance E (NewClient w) (Web_ID inst) wc = (cleanup, wd)"
  shows "sshWebCmd E F hostArg nameFlag webPortFlag domain enableSSL w =
           (Some (Wrapf ''deployment failed: '' err), wd) \<and>
         added wc wd =
           [Request (NewClient w) ''DELETE'' (''/api/web/instances/'' @ Web_ID inst) NoBody] \<and>
         filter isDelete (added w wd) =
           [Request (NewClient w) ''DELETE'' (''/api/web/instances/'' @ Web_ID inst) NoBody]"
proof -
  let ?del = "Request (NewClient w) ''DELETE'' (''/api/web/instances/'' @ Web_ID inst) NoBody"
  have q: "\<not> (\<not> Plan_IsPro plan \<and> Plan_CurrentCount plan \<ge> Plan_MaxWebApps plan)"
    using assms(3) by auto
  have res: "sshWebCmd E F hostArg nameFlag webPortFlag domain enableSSL w =
           (Some (Wrapf ''deployment failed: '' err), wd)"
    unfolding sshWebCmd_steps
    by (simp add: requireLogin_in [OF assms(1)] assms(2) if_not_P [OF q] assms(4) assms(5) assms(6)
          split del: if_split)
  have wa: "wa = emit (Request (NewClient w) ''GET'' ''/api/user/plan'' NoBody) w"
    using assms(2) by (rule GetUserPlan_world)
  have wb: "wb = emit (Request (NewClient w) ''POST'' ''/api/web/instances''
                  (InstanceBody (webRegistration hostArg nameFlag webPortFlag domain enableSSL))) wa"
    using assms(4) by (rule RegisterWebInstance_world)
  have wd: "wd = emit ?del wc"
    using assms(6) by (rule RemoveWebInstance_world)
  have a34: "added wc wd = [?del]"
    unfolding wd by (rule added_emit1)
  from runSSHCommand_world [OF assms(5)]
  have "filter isDelete (added w wd) = [?del]"
  proof
    assume "wc = wb"
    then show ?thesis
      unfolding wd wb wa by (simp add: added_emit3)
  next
    assume "\<exists>sshPath. wc = emit (Exec sshPath
        (buildSSHArgs F (fst (sshTarget F hostArg)) (snd (sshTarget F hostArg)) @
         [webInstallCmd (cfg wb) webPortFlag domain enableSSL])) wb"
    then obtain sshPath where "wc = emit (Exec sshPath
        (buildSSHArgs F (fst (sshTarget F hostArg)) (snd (sshTarget F hostArg)) @
         [webInstallCmd (cfg wb) webPortFlag domain enableSSL])) wb" ..
    then show ?thesis
      unfolding wd wb wa by (simp add: added_emit4)
  qed
  with res a34 show ?thesis by simp
qed

theorem sshWebCmd_compensates_witness:
  "fst (sshWebCmd fakeGateway noFlags ''root@h'' [] 3001 [] False loggedIn) =
     Some (Wrapf ''deployment failed: '' (Foreign ''exit status 1'')) \<and>
   filter isDelete
     (added loggedIn (snd (sshWebCmd fakeGateway noFlags ''root@h'' [] 3001 [] False loggedIn))) =
     [Request (NewClient loggedIn) ''DELETE'' ''/api/web/instances/web-1'' NoBody]"
proof -
  have q: "Plan_IsPro freePlan \<or> Plan_CurrentCount freePlan < Plan_MaxWebApps freePlan"
    by (simp add: freePlan_def)
  have i: "Web_ID webOne = ''web-1''" by (simp add: webOne_def)
  from sshWebCmd_compensates [OF loggedIn_IsLoggedIn fake_GetUserPlan_free q
         fake_RegisterWebInstance fake_runSSHCommand fake_RemoveWebInstance,
         of noFlags "''root@h''" "[]" 3001 "[]" False]
  show ?thesis by (simp add: i)
qed

section \<open>Agent deployment\<close>

text \<open>
  C5. With a session and no \<open>--server\<close> flag, when the server is created and the SSH step
  then fails with \<open>err\<close>, \<open>ssh agent\<close> returns \<open>deployment failed: \<close> wrapping \<open>err\<close>
  and stops in the world the SSH step left: the run starts with the request that created
  the server and holds no \<open>DELETE\<close> request, so the new server stays in the cloud.
\<close>

theorem sshAgentCmd_no_rollback:
  assumes "IsLoggedIn w"
    and "CreateServer E (NewClient w) (agentServerName hostArg nameFlag) w = (Inr server, wa)"
    and "runSSHCommand E
           (buildSSHArgs F (fst (sshTarget F hostArg)) (snd (sshTarget F hostArg)))
           (agentInstallCmd (cfg wa) (agentServerName hostArg nameFlag)) wa = (Some err, wb)"
  shows "sshAgentCmd E F hostArg nameFlag [] w = (Some (Wrapf ''deployment failed: '' err), wb) \<and>
         Unwrap (Wrapf ''deployment failed: '' err) = Some err \<and>
         filter isDelete (added w wb) = [] \<and>
         hd (added w wb) =
           Request (NewClient w) ''POST'' ''/api/servers''
             (NameBody (agentServerName hostArg nameFlag))"
proof -
  have res: "sshAgentCmd E F hostArg nameFlag [] w = (Some (Wrapf ''deployment failed: '' err), wb)"
    unfolding sshAgentCmd_steps
    by (simp add: requireLogin_in [OF assms(1)] assms(2) assms(3))
  have wa: "wa = emit (Request (NewClient w) ''POST'' ''/api/servers''
                  (NameBody (agentServerName hostArg nameFlag))) w"
    using assms(2) by (rule CreateServer_world)
  from runSSHCommand_world [OF assms(3)]
  have "filter isDelete (added w wb) = [] \<and>
         hd (added w wb) =
           Request (NewClient w) ''POST'' ''/api/servers''
             (NameBody (agentServerName hostArg nameFlag))"
  proof
    assume "wb = wa"
    then show ?thesis unfolding wa by (simp add: added_emit1)
  next
    assume "\<exists>sshPath. wb = emit (Exec sshPath
        (buildSSHArgs F (fst (sshTarget F hostArg)) (snd (sshTarget F hostArg)) @
         [agentInstallCmd (cfg wa) (agentServerName hostArg nameFlag)])) wa"
    then obtain sshPath where "wb = emit (Exec sshPath
        (buildSSHArgs F (fst (sshTarget F hostArg)) (snd (sshTarget F hostArg)) @
         [agentInstallCmd (cfg wa) (agentServerName hostArg nameFlag)])) wa" ..
    then show ?thesis unfolding wa by (simp add: added_emit2)
  qed
  with res show ?thesis by simp
qed

theorem sshAgentCmd_no_rollback_witness:
  "fst (sshAgentCmd fakeGateway noFlags ''admin@h'' [] [] loggedIn) =
     Some (Wrapf ''deployment failed: '' (Foreign ''exit status 1'')) \<and>
   filter isDelete
     (added loggedIn (snd (sshAgentCmd fakeGateway noFlags ''admin@h'' [] [] loggedIn))) = []"
proof -
  from sshAgentCmd_no_rollback [OF loggedIn_IsLoggedIn fake_CreateServer fake_runSSHCommand,
         of noFlags "''admin@h''" "[]"]
  show ?thesis by simp
qed

section \<open>Session\<close>

text \<open>
  C8. \<open>logout\<close> with an empty token returns no error and leaves the world as it was: the
  configuration file is not written and keeps its content. Hence a second \<open>logout\<close> right
  after any \<open>logout\<close> returns no error and changes nothing.
\<close>

theorem logout_without_session:
  "(Config_Token (cfg w) = [] \<longrightarrow> logoutCmd E w = (None, w)) \<and>
   logoutCmd E' (snd (logoutCmd E w)) = (None, snd (logoutCmd E w))"
proof
  show "Config_Token (cfg w) = [] \<longrightarrow> logoutCmd E w = (None, w)"
    by (simp add: logoutCmd_def IsLoggedIn_def)
  have "\<not> IsLoggedIn (snd (logoutCmd E w))"
    by (simp add: logoutCmd_def IsLoggedIn_def SaveConfig_def Let_def emit_def
        split: option.splits)
  then show "logoutCmd E' (snd (logoutCmd E w)) = (None, snd (logoutCmd E w))"
    by (simp add: logoutCmd_def)
qed

theorem logout_without_session_witness:
  "Config_Token (cfg loggedOut) = [] \<and> logoutCmd fakeGateway loggedOut = (None, loggedOut) \<and>
   logoutCmd fakeGateway (snd (logoutCmd fakeGateway loggedIn)) =
     (None, snd (logoutCmd fakeGateway loggedIn))"
proof -
  have t: "Config_Token (cfg loggedOut) = []" by (simp add: loggedOut_def)
  from logout_without_session [of loggedOut fakeGateway fakeGateway]
    logout_without_session [of loggedIn fakeGateway fakeGateway] t
  show ?thesis by simp
qed

text \<open>
  C10. After a login that returns no error, the configuration in memory and in the file
  is the old one with the token used, the user name of the verify response, and an
  expiry equal to the Unix time of the local clock plus \<open>7 * 24 * 3600\<close> seconds; nothing
  else of the verify response appears in it.
\<close>

theorem runLogin_expiry:
  assumes "runLogin E loginToken w = (None, w')"
  shows "\<exists>token resp wa.
           (if loginToken = [] then prompt_token E else Inr loginToken) = Inr token \<and>
           VerifyToken E \<lparr>Client_BaseURL = Config_CloudURL (cfg w), Client_Token = token\<rparr> w
             = (Inr resp, wa) \<and>
           cfg w' = (cfg w)\<lparr>Config_Token := token, Config_Username := Verify_Username resp,
                            Config_ExpiresAt := Unix (now E) + 7 * 24 * 3600\<rparr> \<and>
           disk w' = Some (cfg w')"
proof -
  obtain token where t: "(if loginToken = [] then prompt_token E else Inr loginToken) = Inr token"
    using assms by (cases "if loginToken = [] then prompt_token E else Inr loginToken")
      (simp_all add: runLogin_def)
  let ?c = "\<lparr>Client_BaseURL = Config_CloudURL (cfg w), Client_Token = token\<rparr>"
  have ne: "token \<noteq> []"
    using assms t by (auto simp: runLogin_def)
  obtain res wa where v: "VerifyToken E ?c w = (res, wa)"
    by (cases "VerifyToken E ?c w")
  have wa: "wa = emit (Request ?c ''GET'' ''/api/auth/verify'' NoBody) w"
    using v unfolding VerifyToken_def by (rule Do_world)
  obtain resp where r: "res = Inr resp"
    using assms t ne v by (cases res) (simp_all add: runLogin_def Let_def)
  have valid: "Verify_Valid resp"
    using assms t ne v r by (auto simp: runLogin_def Let_def split: if_splits)
  let ?wb = "wa\<lparr>cfg := (cfg wa)\<lparr>Config_Token := token, Config_Username := Verify_Username resp,
                     Config_ExpiresAt := Unix (Add (now E) (7 * 24 * Hour))\<rparr>\<rparr>"
  have s: "SaveConfig E ?wb = (None, w')"
    using assms t ne v r valid
    by (simp add: runLogin_def Let_def split: prod.splits option.splits)
  then have "cfg w' = cfg ?wb \<and> disk w' = Some (cfg ?wb)"
    by (auto simp: SaveConfig_def Let_def emit_def split: option.splits)
  then have "cfg w' = (cfg w)\<lparr>Config_Token := token, Config_Username := Verify_Username resp,
                            Config_ExpiresAt := Unix (now E) + 7 * 24 * 3600\<rparr> \<and>
           disk w' = Some (cfg w')"
    unfolding Unix_Add_week by (simp add: wa cfg_emit)
  with t v r show ?thesis by blast
qed

theorem runLogin_expiry_witness:
  "fst (runLogin fakeGateway ''tok-9'' loggedOut) = None \<and>
   Config_ExpiresAt (cfg (snd (runLogin fakeGateway ''tok-9'' loggedOut))) = 1700604800 \<and>
   disk (snd (runLogin fakeGateway ''tok-9'' loggedOut)) =
     Some (cfg (snd (runLogin fakeGateway ''tok-9'' loggedOut)))"
proof -
  have ok: "fst (runLogin fakeGateway ''tok-9'' loggedOut) = None"
    by (simp add: runLogin_def VerifyToken_def Do_def SaveConfig_def emit_def Let_def
        fakeGateway_def verified_def)
  then have h: "runLogin fakeGateway ''tok-9'' loggedOut =
      (None, snd (runLogin fakeGateway ''tok-9'' loggedOut))"
    by (simp add: prod_eq_iff)
  have u: "Unix (now fakeGateway) = 1700000000"
    by (simp add: Unix_def fakeGateway_def)
  from runLogin_expiry [OF h] ok u show ?thesis by auto
qed

section \<open>The displayed URL\<close>

text \<open>
  C4. \<open>buildWebURL\<close> gives \<open>https://h\<close>, \<open>https://h:8080\<close>, \<open>http://d.example.com\<close> and
  \<open>https://d.example.com:3001\<close> on the four inputs below. In general the URL is the
  scheme, \<open>://\<close>, the domain when one is set and the host otherwise, and then the port
  after a colon unless it is left out: with a domain the port is left out exactly when it
  is the default of the scheme (443 with SSL, 80 without), with no domain exactly when it
  is 80 or 443.
\<close>

theorem buildWebURL_ports:
  "buildWebURL ''h'' 443 [] True = ''https://h'' \<and>
   buildWebURL ''h'' 8080 [] True = ''https://h:8080'' \<and>
   buildWebURL ''h'' 80 ''d.example.com'' False = ''http://d.example.com'' \<and>
   buildWebURL ''h'' 3001 ''d.example.com'' True = ''https://d.example.com:3001'' \<and>
   (domain \<noteq> [] \<longrightarrow>
      buildWebURL host port domain ssl =
        (if ssl then ''https'' else ''http'') @ ''://'' @ domain @
        (if port = (if ssl then 443 else 80) then [] else '':'' @ itoa port)) \<and>
   (domain = [] \<longrightarrow>
      buildWebURL host port domain ssl =
        (if ssl then ''https'' else ''http'') @ ''://'' @ host @
        (if port = 80 \<or> port = 443 then [] else '':'' @ itoa port))"
proof (intro conjI impI)
  show "buildWebURL ''h'' 443 [] True = ''https://h''"
    by (simp add: buildWebURL_def Let_def)
  show "buildWebURL ''h'' 8080 [] True = ''https://h:8080''"
    by (simp add: buildWebURL_def Let_def itoa_8080)
  show "buildWebURL ''h'' 80 ''d.example.com'' False = ''http://d.example.com''"
    by (simp add: buildWebURL_def Let_def)
  show "buildWebURL ''h'' 3001 ''d.example.com'' True = ''https://d.example.com:3001''"
    by (simp add: buildWebURL_def Let_def itoa_3001)
next
  assume "domain \<noteq> []"
  then show "buildWebURL host port domain ssl =
        (if ssl then ''https'' else ''http'') @ ''://'' @ domain @
        (if port = (if ssl then 443 else 80) then [] else '':'' @ itoa port)"
    by (simp add: buildWebURL_def Let_def)
next
  assume "domain = []"
  then show "buildWebURL host port domain ssl =
        (if ssl then ''https'' else ''http'') @ ''://'' @ host @
        (if port = 80 \<or> port = 443 then [] else '':'' @ itoa port)"
    by (simp add: buildWebURL_def Let_def)
qed

theorem buildWebURL_ports_witness:
  "buildWebURL ''h'' 443 ''d.example.com'' False = ''http://d.example.com:443'' \<and>
   buildWebURL ''h'' 80 [] True = ''https://h''"
proof -
  have a: "''d.example.com'' \<noteq> []" by simp
  from buildWebURL_ports [of "''d.example.com''" "''h''" 443 False]
    buildWebURL_ports [of "[]" "''h''" 80 True] a
  show ?thesis by (simp add: itoa_443)
qed

end
